theory Spec2Isabelle
  imports Main "HOL-Library.List_Lexorder" "HOL-Library.Char_ord"
begin

section \<open>Python values used by ChemCompMoleculeProvider\<close>

text \<open>
  The provider of \<^verbatim>\<open>rcsb/utils/chem/ChemCompMoleculeProvider.py\<close> keeps a Python
  dictionary from component identifiers to data containers. Exceptions are values of
  \<open>exn\<close>; a computation that may raise has a result of type \<open>exn + 'a\<close>.
\<close>

datatype exn = KeyError | TypeError | AttributeError | ExternalError

text \<open>An argument that is an integer or \<^verbatim>\<open>None\<close> (\<^verbatim>\<open>molLimit\<close>, \<^verbatim>\<open>minCount\<close>).\<close>

datatype pyint = PNone | PInt int


text \<open>
  One row of the \<^verbatim>\<open>chem_comp\<close> category and one data container. The container is
  opaque to the provider except for its name and the rows the iterator yields;
  \<open>payload\<close> stands for the rest of its content.
\<close>

datatype PdbxChemComp = PdbxChemComp (getId: string)

record DataContainer =
  getName :: string
  chem_comp :: "PdbxChemComp list"
  payload :: string

text \<open>
  Modelled from the spec: the iterator class \<^verbatim>\<open>PdbxChemCompIt\<close> of
  \<^verbatim>\<open>rcsb.utils.chem.PdbxChemComp\<close> is not among the sources. It yields the "logical
  sub-entries" of a record in order; each carries the "well-known identity field".
\<close>

definition PdbxChemCompIt :: "DataContainer \<Rightarrow> PdbxChemComp list" where
  "PdbxChemCompIt ccObj = chem_comp ccObj"

subsection \<open>Dictionaries\<close>

text \<open>
  A Python \<^verbatim>\<open>dict\<close> is a list of items in insertion order. Assigning to a key that is
  present replaces its value in place; assigning to a new key appends an item.
\<close>

type_synonym 'v dict = "(string \<times> 'v) list"

fun dict_setitem :: "'v dict \<Rightarrow> string \<Rightarrow> 'v \<Rightarrow> 'v dict" where
  "dict_setitem [] k v = [(k, v)]"
| "dict_setitem ((k', v') # d) k v =
     (if k' = k then (k', v) # d else (k', v') # dict_setitem d k v)"

definition dict_keys :: "'v dict \<Rightarrow> string list" where
  "dict_keys d = map fst d"

definition dict_contains :: "'v dict \<Rightarrow> string \<Rightarrow> bool" where
  "dict_contains d k = (k \<in> set (dict_keys d))"

definition dict_getitem :: "'v dict \<Rightarrow> string \<Rightarrow> exn + 'v" where
  "dict_getitem d k = (case map_of d k of None \<Rightarrow> Inl KeyError | Some v \<Rightarrow> Inr v)"

definition dict_truthy :: "'v dict option \<Rightarrow> bool" where
  "dict_truthy d = (case d of None \<Rightarrow> False | Some items \<Rightarrow> items \<noteq> [])"

type_synonym store = "DataContainer dict"

text \<open>The slice \<^verbatim>\<open>xs[:n]\<close>; a negative \<open>n\<close> counts from the end.\<close>

definition slice_to :: "'a list \<Rightarrow> int \<Rightarrow> 'a list" where
  "slice_to xs n =
     (if 0 \<le> n then take (nat n) xs else take (length xs - nat (- n)) xs)"

section \<open>Lookup and validation\<close>

text \<open>
  \<^verbatim>\<open>self.__ccMolD[ccId]\<close>: subscripting \<^verbatim>\<open>None\<close> raises TypeError, a missing key raises
  KeyError.
\<close>

definition ccMolD_subscript :: "store option \<Rightarrow> string \<Rightarrow> exn + DataContainer" where
  "ccMolD_subscript ccMolD ccId =
     (case ccMolD of None \<Rightarrow> Inl TypeError | Some d \<Rightarrow> dict_getitem d ccId)"

text \<open>
  \<^verbatim>\<open>getMol\<close>: the subscript runs inside \<^verbatim>\<open>try\<close>; the handler logs and falls through to
  \<^verbatim>\<open>return None\<close>. The result \<open>Inr None\<close> is the Python value \<^verbatim>\<open>None\<close>.
\<close>

definition getMol :: "store option \<Rightarrow> string \<Rightarrow> exn + DataContainer option" where
  "getMol ccMolD ccId =
     (case ccMolD_subscript ccMolD ccId of
        Inr ccObj \<Rightarrow> Inr (Some ccObj)
      | Inl e \<Rightarrow> Inr None)"

text \<open>
  The value \<^verbatim>\<open>testCache\<close> returns: the expression
  \<^verbatim>\<open>self.__ccMolD and len(self.__ccMolD) >= minCount if minCount else self.__ccMolD is not None\<close>
  parses as \<^verbatim>\<open>(A and B) if minCount else C\<close>, and \<^verbatim>\<open>A and B\<close> is \<^verbatim>\<open>A\<close> itself when
  \<^verbatim>\<open>A\<close> is falsy. With the default \<^verbatim>\<open>logSizes=False\<close> nothing else happens.
\<close>

datatype pyval = VNone | VBool bool | VDict store

fun pyval_truthy :: "pyval \<Rightarrow> bool" where
  "pyval_truthy VNone = False"
| "pyval_truthy (VBool b) = b"
| "pyval_truthy (VDict d) = (d \<noteq> [])"

fun testCache :: "store option \<Rightarrow> pyint \<Rightarrow> pyval" where
  "testCache ccMolD (PInt minCount) =
     (if minCount \<noteq> 0 then
        (case ccMolD of
           None \<Rightarrow> VNone
         | Some d \<Rightarrow> if d = [] then VDict d else VBool (minCount \<le> int (length d)))
      else VBool (ccMolD \<noteq> None))"
| "testCache ccMolD PNone = VBool (ccMolD \<noteq> None)"

text \<open>The call \<^verbatim>\<open>testCache()\<close>: the signature's default is \<^verbatim>\<open>minCount=29000\<close>.\<close>

definition testCache_default :: "store option \<Rightarrow> pyval" where
  "testCache_default ccMolD = testCache ccMolD (PInt 29000)"

section \<open>Paths\<close>

text \<open>
  \<^verbatim>\<open>os.path.join(a, b)\<close> and \<^verbatim>\<open>os.path.splitext(p)\<close> of the POSIX flavour of the
  standard library. \<open>rfind\<close> is \<^verbatim>\<open>str.rfind\<close> for a single character: the last index
  of the character, or -1.
\<close>

definition os_path_join :: "string \<Rightarrow> string \<Rightarrow> string" where
  "os_path_join a b =
     (if take 1 b = ''/'' then b
      else if a = [] \<or> last a = CHR ''/'' then a @ b
      else a @ ''/'' @ b)"

fun rfind :: "string \<Rightarrow> char \<Rightarrow> int" where
  "rfind [] c = - 1"
| "rfind (x # xs) c =
     (let r = rfind xs c in if 0 \<le> r then r + 1 else if x = c then 0 else - 1)"

text \<open>
  \<^verbatim>\<open>genericpath._splitext\<close>: the extension starts at the last dot of the last path
  component, provided some character of that component before the dot is not a dot.
\<close>

definition os_path_splitext :: "string \<Rightarrow> string \<times> string" where
  "os_path_splitext p =
     (let sepIndex = rfind p CHR ''/''; dotIndex = rfind p CHR ''.'' in
      if sepIndex < dotIndex \<and>
         list_ex (\<lambda>c. c \<noteq> CHR ''.'') (drop (nat (sepIndex + 1)) (take (nat dotIndex) p))
      then (take (nat dotIndex) p, drop (nat dotIndex) p)
      else (p, []))"

section \<open>The environment\<close>

text \<open>
  \<^verbatim>\<open>MarshalUtil\<close> and \<^verbatim>\<open>FileUtil\<close> belong to another package
  (\<^verbatim>\<open>rcsb.utils.io\<close>). Their calls that touch the file system or the network are
  recorded as events, and what a call answers is a parameter that may depend on the
  events so far: nothing is assumed about files or archives.

  \<^item> \<^verbatim>\<open>doImport(path, fmt="mmcif")\<close> raises, or returns \<^verbatim>\<open>None\<close>, or returns a list of
    containers; \<^verbatim>\<open>doImport\<close> of the cache file raises, or returns \<^verbatim>\<open>None\<close>, or returns
    a dictionary.
  \<^item> The status flags that \<^verbatim>\<open>FileUtil.get\<close> and \<^verbatim>\<open>doExport\<close> return are only
    logged, so only the calls are recorded.
\<close>

datatype fmt = Json | Pickle | Mmcif

datatype event =
    EvGet string string
  | EvImport string fmt
  | EvExport string store fmt

record env =
  mU_exists :: "event list \<Rightarrow> string \<Rightarrow> bool"
  mU_doImport_mmcif :: "event list \<Rightarrow> string \<Rightarrow> exn + DataContainer list option"
  mU_doImport_dict :: "event list \<Rightarrow> string \<Rightarrow> fmt \<Rightarrow> exn + store option"
  fU_getFileName :: "string \<Rightarrow> string"
  fU_exists :: "event list \<Rightarrow> string \<Rightarrow> bool"

section \<open>Reading the component definitions\<close>

text \<open>\<^verbatim>\<open>__fetchUrl\<close>: returns the local path whether or not the download succeeded.\<close>

definition fetchUrl :: "env \<Rightarrow> event list \<Rightarrow> string \<Rightarrow> string \<Rightarrow> bool \<Rightarrow> string \<times> event list" where
  "fetchUrl e h urlTarget dirPath useCache =
     (let fn = fU_getFileName e urlTarget;
          filePath = os_path_join dirPath fn
      in if \<not> (useCache \<and> fU_exists e h filePath)
         then (filePath, h @ [EvGet urlTarget filePath])
         else (filePath, h))"

text \<open>
  \<^verbatim>\<open>rdCcObjL = self.__mU.doImport(path, fmt="mmcif")\<close> followed by the
  \<^verbatim>\<open>len(rdCcObjL)\<close> of the log call, which raises TypeError on \<^verbatim>\<open>None\<close>.
\<close>

definition import_mmcif :: "env \<Rightarrow> event list \<Rightarrow> string \<Rightarrow> exn + DataContainer list" where
  "import_mmcif e h path =
     (case mU_doImport_mmcif e h path of
        Inl ex \<Rightarrow> Inl ex
      | Inr None \<Rightarrow> Inl TypeError
      | Inr (Some ccObjL) \<Rightarrow> Inr ccObjL)"

text \<open>
  \<^verbatim>\<open>ccIt = next(iter(PdbxChemCompIt(ccObj)), None)\<close>;
  \<^verbatim>\<open>ccId = ccIt.getId() if ccIt else ccObj.getName()\<close>.
\<close>

definition ccId_of :: "DataContainer \<Rightarrow> string" where
  "ccId_of ccObj =
     (case PdbxChemCompIt ccObj of
        [] \<Rightarrow> getName ccObj
      | ccIt # _ \<Rightarrow> getId ccIt)"

text \<open>Successive assignments \<^verbatim>\<open>d[k] = v\<close>, as a loop or a dict comprehension makes them.\<close>

fun dict_from_items :: "'v dict \<Rightarrow> (string \<times> 'v) list \<Rightarrow> 'v dict" where
  "dict_from_items d [] = d"
| "dict_from_items d ((k, v) # items) = dict_from_items (dict_setitem d k v) items"

text \<open>\<^verbatim>\<open>for ccObj in ccObjL: ... ccObjD[ccId] = ccObj\<close>\<close>

definition key_records :: "store \<Rightarrow> DataContainer list \<Rightarrow> store" where
  "key_records ccObjD ccObjL =
     dict_from_items ccObjD (map (\<lambda>ccObj. (ccId_of ccObj, ccObj)) ccObjL)"

text \<open>\<^verbatim>\<open>ccObjL = rdCcObjL[:molLimit] if molLimit else rdCcObjL\<close>\<close>

definition limit_records :: "'a list \<Rightarrow> pyint \<Rightarrow> 'a list" where
  "limit_records rdCcObjL molLimit =
     (case molLimit of
        PInt n \<Rightarrow> if n \<noteq> 0 then slice_to rdCcObjL n else rdCcObjL
      | PNone \<Rightarrow> rdCcObjL)"

text \<open>\<^verbatim>\<open>if birdFilePath:\<close> is false for \<^verbatim>\<open>None\<close> and for the empty string.\<close>

definition path_truthy :: "string option \<Rightarrow> bool" where
  "path_truthy p = (case p of None \<Rightarrow> False | Some s \<Rightarrow> s \<noteq> [])"

text \<open>
  The body of the \<^verbatim>\<open>try\<close> block of \<^verbatim>\<open>__readComponentDefinitions\<close>. Every statement
  that can raise comes before the loop that fills \<^verbatim>\<open>ccObjD\<close>.
\<close>

definition read_try_body ::
  "env \<Rightarrow> event list \<Rightarrow> string \<Rightarrow> string option \<Rightarrow> pyint \<Rightarrow> (exn + store) \<times> event list" where
  "read_try_body e h ccdFilePath birdFilePath molLimit =
     (let h1 = h @ [EvImport ccdFilePath Mmcif] in
      case import_mmcif e h ccdFilePath of
        Inl ex \<Rightarrow> (Inl ex, h1)
      | Inr rdCcObjL \<Rightarrow>
          (case birdFilePath of
             Some birdPath \<Rightarrow>
               if path_truthy birdFilePath then
                 (let h2 = h1 @ [EvImport birdPath Mmcif] in
                  case import_mmcif e h1 birdPath of
                    Inl ex \<Rightarrow> (Inl ex, h2)
                  | Inr birdCcObjL \<Rightarrow>
                      (Inr (key_records [] (limit_records (rdCcObjL @ birdCcObjL) molLimit)), h2))
               else (Inr (key_records [] (limit_records rdCcObjL molLimit)), h1)
           | None \<Rightarrow> (Inr (key_records [] (limit_records rdCcObjL molLimit)), h1)))"

text \<open>
  \<^verbatim>\<open>__readComponentDefinitions\<close>: the handler logs the exception, and the function
  returns \<^verbatim>\<open>ccObjD\<close>, which is still the empty dictionary when the body raised.
\<close>

definition readComponentDefinitions ::
  "env \<Rightarrow> event list \<Rightarrow> string \<Rightarrow> string option \<Rightarrow> pyint \<Rightarrow> store \<times> event list" where
  "readComponentDefinitions e h ccdFilePath birdFilePath molLimit =
     (case read_try_body e h ccdFilePath birdFilePath molLimit of
        (Inr ccObjD, h') \<Rightarrow> (ccObjD, h')
      | (Inl ex, h') \<Rightarrow> ([], h'))"

section \<open>Reloading or building the store\<close>

text \<open>\<^verbatim>\<open>[(k, rdCcObjD[k]) for k in ks]\<close>; a missing key raises KeyError.\<close>

fun items_for :: "'v dict \<Rightarrow> string list \<Rightarrow> exn + (string \<times> 'v) list" where
  "items_for rd [] = Inr []"
| "items_for rd (k # ks) =
     (case dict_getitem rd k of
        Inl ex \<Rightarrow> Inl ex
      | Inr v \<Rightarrow>
          (case items_for rd ks of
             Inl ex \<Rightarrow> Inl ex
           | Inr items \<Rightarrow> Inr ((k, v) # items)))"

text \<open>
  \<^verbatim>\<open>{k: rdCcObjD[k] for k in sorted(rdCcObjD.keys())[:molLimit]} if molLimit else rdCcObjD\<close>:
  \<^verbatim>\<open>None.keys()\<close> raises AttributeError. Strings are ordered as Python orders them,
  lexicographically by character code.
\<close>

definition truncate_sorted :: "store option \<Rightarrow> pyint \<Rightarrow> exn + store option" where
  "truncate_sorted rdCcObjD molLimit =
     (case molLimit of
        PInt n \<Rightarrow>
          if n \<noteq> 0 then
            (case rdCcObjD of
               None \<Rightarrow> Inl AttributeError
             | Some rd \<Rightarrow>
                 (case items_for rd (slice_to (sort (dict_keys rd)) n) of
                    Inl ex \<Rightarrow> Inl ex
                  | Inr items \<Rightarrow> Inr (Some (dict_from_items [] items))))
          else Inr rdCcObjD
      | PNone \<Rightarrow> Inr rdCcObjD)"

text \<open>
  \<^verbatim>\<open>{ccId: ccObj for ccId, ccObj in rdCcObjD.items() if ccId in filterIdD} if filterIdD else rdCcObjD\<close>:
  \<^verbatim>\<open>None\<close> and the empty dictionary are both falsy.
\<close>

definition apply_filter :: "store \<Rightarrow> 'f dict option \<Rightarrow> store" where
  "apply_filter rdCcObjD filterIdD =
     (case filterIdD of
        Some fD \<Rightarrow>
          if dict_truthy filterIdD
          then dict_from_items [] (filter (\<lambda>(ccId, ccObj). dict_contains fD ccId) rdCcObjD)
          else rdCcObjD
      | None \<Rightarrow> rdCcObjD)"

text \<open>The \<^verbatim>\<open>len(ccObjD)\<close> of the last log call of \<^verbatim>\<open>__reload\<close>.\<close>

definition len_logged :: "store option \<Rightarrow> exn + store" where
  "len_logged ccObjD = (case ccObjD of None \<Rightarrow> Inl TypeError | Some d \<Rightarrow> Inr d)"

definition ccDataFilePath_of :: "string \<Rightarrow> string \<Rightarrow> string" where
  "ccDataFilePath_of dirPath ccFileNamePrefix =
     os_path_join dirPath (ccFileNamePrefix @ ''-data.pic'')"

definition ccDataFormat_of :: "string \<Rightarrow> fmt" where
  "ccDataFormat_of ccDataFilePath =
     (let fExt = snd (os_path_splitext ccDataFilePath)
      in if fExt = ''json'' then Json else Pickle)"

text \<open>
  \<^verbatim>\<open>__reload\<close>. The first argument after the history is \<^verbatim>\<open>self.__ccFileNamePrefix\<close>.
  An exception of the cache import or of the expressions after it is not caught here.
\<close>

definition reload ::
  "env \<Rightarrow> event list \<Rightarrow> string \<Rightarrow> string \<Rightarrow> string \<Rightarrow> string \<Rightarrow> bool \<Rightarrow> pyint \<Rightarrow>
   'f dict option \<Rightarrow> (exn + store) \<times> event list" where
  "reload e h ccFileNamePrefix ccUrlTarget birdUrlTarget dirPath useCache molLimit filterIdD =
     (let ccDataFilePath = ccDataFilePath_of dirPath ccFileNamePrefix;
          ccDataFormat = ccDataFormat_of ccDataFilePath
      in if useCache \<and> mU_exists e h ccDataFilePath then
           (let h1 = h @ [EvImport ccDataFilePath ccDataFormat] in
            case mU_doImport_dict e h ccDataFilePath ccDataFormat of
              Inl ex \<Rightarrow> (Inl ex, h1)
            | Inr rdCcObjD \<Rightarrow>
                (case truncate_sorted rdCcObjD molLimit of
                   Inl ex \<Rightarrow> (Inl ex, h1)
                 | Inr ccObjD \<Rightarrow> (len_logged ccObjD, h1)))
         else
           (let (ccdFilePath, h1) = fetchUrl e h ccUrlTarget dirPath useCache;
                (birdFilePath, h2) = fetchUrl e h1 birdUrlTarget dirPath useCache;
                (rdCcObjD, h3) =
                   readComponentDefinitions e h2 ccdFilePath (Some birdFilePath) molLimit;
                ccObjD = apply_filter rdCcObjD filterIdD
            in (Inr ccObjD, h3 @ [EvExport ccDataFilePath ccObjD ccDataFormat])))"

text \<open>
  The constructor reads its settings with \<^verbatim>\<open>kwargs.get(name, default)\<close>; a field that
  is \<open>None\<close> here is a keyword that was not passed. \<^verbatim>\<open>filterIdD\<close> defaults to
  \<^verbatim>\<open>None\<close>, so for it "not passed" and \<^verbatim>\<open>None\<close> coincide.
\<close>

record 'f kwargs =
  kw_ccUrlTarget :: "string option"
  kw_birdUrlTarget :: "string option"
  kw_ccFileNamePrefix :: "string option"
  kw_cachePath :: "string option"
  kw_useCache :: "bool option"
  kw_molLimit :: "pyint option"
  kw_filterIdD :: "'f dict option"

definition kwargs_get :: "'a option \<Rightarrow> 'a \<Rightarrow> 'a" where
  "kwargs_get v dflt = (case v of None \<Rightarrow> dflt | Some x \<Rightarrow> x)"

text \<open>\<^verbatim>\<open>__init__\<close>: the value computed is the one stored in \<^verbatim>\<open>self.__ccMolD\<close>.\<close>

definition init :: "env \<Rightarrow> event list \<Rightarrow> 'f kwargs \<Rightarrow> (exn + store) \<times> event list" where
  "init e h kw =
     (let ccUrlTarget = kwargs_get (kw_ccUrlTarget kw)
            ''http://ftp.wwpdb.org/pub/pdb/data/monomers/components.cif.gz'';
          birdUrlTarget = kwargs_get (kw_birdUrlTarget kw)
            ''http://ftp.wwpdb.org/pub/pdb/data/bird/prd/prdcc-all.cif.gz'';
          ccFileNamePrefix = kwargs_get (kw_ccFileNamePrefix kw) ''cc'';
          cachePath = kwargs_get (kw_cachePath kw) ''.'';
          dirPath = os_path_join cachePath ''chem_comp'';
          useCache = kwargs_get (kw_useCache kw) True;
          molLimit = kwargs_get (kw_molLimit kw) (PInt 0);
          filterIdD = kw_filterIdD kw
      in reload e h ccFileNamePrefix ccUrlTarget birdUrlTarget dirPath useCache molLimit
           filterIdD)"

section \<open>Sample data\<close>

text \<open>
  Three primary records (one without a \<^verbatim>\<open>chem_comp\<close> row), a supplementary record
  whose identifier is that of a primary one, and an environment whose imports answer
  as given: \<open>ccResult\<close> for the primary archive, \<open>birdResult\<close> for any other path, and
  \<open>cached\<close> for the cache file (\<open>None\<close> when there is no cache file).
\<close>

definition ex_atp :: DataContainer where
  "ex_atp = \<lparr>getName = ''ATP'', chem_comp = [PdbxChemComp ''ATP''], payload = ''primary ATP''\<rparr>"

definition ex_gtp :: DataContainer where
  "ex_gtp = \<lparr>getName = ''GTP'', chem_comp = [PdbxChemComp ''GTP''], payload = ''primary GTP''\<rparr>"

definition ex_prd :: DataContainer where
  "ex_prd = \<lparr>getName = ''PRDCC_000001'', chem_comp = [PdbxChemComp ''ATP''],
     payload = ''supplementary''\<rparr>"

definition ex_noid :: DataContainer where
  "ex_noid = \<lparr>getName = ''XYZ'', chem_comp = [], payload = ''no chem_comp row''\<rparr>"

definition ex_env ::
  "(exn + DataContainer list option) \<Rightarrow> (exn + DataContainer list option) \<Rightarrow>
   (exn + store option) option \<Rightarrow> env" where
  "ex_env ccResult birdResult cached =
     \<lparr>mU_exists = (\<lambda>h path. cached \<noteq> None),
      mU_doImport_mmcif = (\<lambda>h path. if path = ''chem_comp/components.cif'' then ccResult else birdResult),
      mU_doImport_dict = (\<lambda>h path f. case cached of None \<Rightarrow> Inl ExternalError | Some r \<Rightarrow> r),
      fU_getFileName = (\<lambda>url. drop (nat (rfind url CHR ''/'' + 1)) url),
      fU_exists = (\<lambda>h path. False)\<rparr>"

definition ex_cached :: store where
  "ex_cached = [(''XYZ'', ex_noid), (''GTP'', ex_gtp), (''ATP'', ex_atp)]"


section \<open>Auxiliary facts\<close>

lemmas ex_defs = ex_env_def ex_atp_def ex_gtp_def ex_prd_def ex_noid_def ex_cached_def

subsection \<open>Dictionaries\<close>


lemma keys_dict_setitem:
  "dict_keys (dict_setitem d k v) =
     (if k \<in> set (dict_keys d) then dict_keys d else dict_keys d @ [k])"
  by (induction d k v rule: dict_setitem.induct) (auto simp: dict_keys_def)

lemma set_keys_dict_setitem:
  "set (dict_keys (dict_setitem d k v)) = insert k (set (dict_keys d))"
  by (auto simp: keys_dict_setitem)


lemma length_dict_keys: "length (dict_keys d) = length d"
  by (simp add: dict_keys_def)

lemma dict_setitem_fresh:
  "k \<notin> set (dict_keys d) \<Longrightarrow> dict_setitem d k v = d @ [(k, v)]"
  by (induction d k v rule: dict_setitem.induct) (auto simp: dict_keys_def)


lemma set_keys_dict_from_items:
  "set (dict_keys (dict_from_items d items)) = set (dict_keys d) \<union> fst ` set items"
  by (induction d items rule: dict_from_items.induct) (auto simp: set_keys_dict_setitem)


lemma length_dict_setitem_le: "length (dict_setitem d k v) \<le> Suc (length d)"
  by (induction d k v rule: dict_setitem.induct) auto

lemma length_dict_from_items_le:
  "length (dict_from_items d items) \<le> length d + length items"
proof (induction d items rule: dict_from_items.induct)
  case (1 d)
  show ?case by simp
next
  case (2 d k v items)
  have "length (dict_setitem d k v) \<le> Suc (length d)" by (rule length_dict_setitem_le)
  with 2 show ?case by simp
qed

lemma dict_from_items_distinct:
  "distinct (dict_keys (d @ items)) \<Longrightarrow> dict_from_items d items = d @ items"
proof (induction d items rule: dict_from_items.induct)
  case (1 d)
  show ?case by simp
next
  case (2 d k v items)
  from 2(2) have fresh: "k \<notin> set (dict_keys d)" by (auto simp: dict_keys_def)
  from 2(2) have "distinct (dict_keys ((d @ [(k, v)]) @ items))" by (simp add: dict_keys_def)
  with 2(1) fresh show ?case by (simp add: dict_setitem_fresh)
qed

lemma items_for_ok:
  "set ks \<subseteq> set (dict_keys rd) \<Longrightarrow>
   \<exists>items. items_for rd ks = Inr items \<and> map fst items = ks \<and>
     (\<forall>(k, v) \<in> set items. map_of rd k = Some v)"
proof (induction ks)
  case Nil
  show ?case by simp
next
  case (Cons k ks)
  then obtain items where it: "items_for rd ks = Inr items" "map fst items = ks"
     "\<forall>(k, v) \<in> set items. map_of rd k = Some v" by auto
  from Cons.prems have "k \<in> fst ` set rd" by (simp add: dict_keys_def)
  then obtain v where v: "map_of rd k = Some v"
    by (metis domD dom_map_of_conv_image_fst)
  with it show ?case by (simp add: dict_getitem_def)
qed

lemma slice_to_pos: "0 < n \<Longrightarrow> slice_to xs n = take (nat n) xs"
  by (simp add: slice_to_def)

subsection \<open>Paths\<close>






lemma reload_miss:
  assumes "\<not> (useCache \<and> mU_exists e h (ccDataFilePath_of dirPath pfx))"
  shows "fst (reload e h pfx ccUrl birdUrl dirPath useCache molLimit filterIdD) =
     Inr (apply_filter
       (fst (readComponentDefinitions e
          (snd (fetchUrl e (snd (fetchUrl e h ccUrl dirPath useCache)) birdUrl dirPath useCache))
          (fst (fetchUrl e h ccUrl dirPath useCache))
          (Some (fst (fetchUrl e (snd (fetchUrl e h ccUrl dirPath useCache)) birdUrl dirPath useCache)))
          molLimit))
       filterIdD)"
proof -
  from assms have c: "(useCache \<and> mU_exists e h (ccDataFilePath_of dirPath pfx)) = False"
    by simp
  show ?thesis
    unfolding reload_def Let_def c by (simp add: split_beta)
qed



subsection \<open>The reader\<close>

lemma set_dict_setitem_subset: "set (dict_setitem d k v) \<subseteq> insert (k, v) (set d)"
  by (induction d k v rule: dict_setitem.induct) auto

lemma set_dict_from_items_subset: "set (dict_from_items d items) \<subseteq> set d \<union> set items"
proof (induction d items rule: dict_from_items.induct)
  case (1 d)
  show ?case by simp
next
  case (2 d k v items)
  with set_dict_setitem_subset [of d k v] show ?case by auto
qed

lemma keys_key_records:
  "set (dict_keys (key_records [] ccObjL)) = ccId_of ` set ccObjL"
proof -
  have "set (dict_keys ([] :: store)) = {}" by (simp add: dict_keys_def)
  then show ?thesis
    by (simp add: key_records_def set_keys_dict_from_items image_image)
qed


lemma length_key_records: "length (key_records [] ccObjL) \<le> length ccObjL"
  using length_dict_from_items_le [of "[]" "map (\<lambda>ccObj. (ccId_of ccObj, ccObj)) ccObjL"]
  by (simp add: key_records_def)

lemma values_key_records: "snd ` set (key_records [] ccObjL) \<subseteq> set ccObjL"
  using set_dict_from_items_subset [of "[]" "map (\<lambda>ccObj. (ccId_of ccObj, ccObj)) ccObjL"]
  by (auto simp: key_records_def)




lemma read_both:
  assumes "mU_doImport_mmcif e h ccd = Inr (Some l1)"
    and "bp \<noteq> []"
    and "mU_doImport_mmcif e (h @ [EvImport ccd Mmcif]) bp = Inr (Some l2)"
  shows "fst (readComponentDefinitions e h ccd (Some bp) molLimit) =
     key_records [] (limit_records (l1 @ l2) molLimit)"
  using assms
  by (simp add: readComponentDefinitions_def read_try_body_def import_mmcif_def
      path_truthy_def Let_def)



lemma apply_filter_keys:
  assumes "fD \<noteq> []"
  shows "set (dict_keys (apply_filter rd (Some fD))) = set (dict_keys fD) \<inter> set (dict_keys rd)"
proof -
  have e: "set (dict_keys ([] :: store)) = {}" by (simp add: dict_keys_def)
  have "apply_filter rd (Some fD) =
      dict_from_items [] (filter (\<lambda>(ccId, ccObj). dict_contains fD ccId) rd)"
    using assms by (simp add: apply_filter_def dict_truthy_def)
  then have "set (dict_keys (apply_filter rd (Some fD))) =
      fst ` set (filter (\<lambda>(ccId, ccObj). dict_contains fD ccId) rd)"
    by (simp add: set_keys_dict_from_items e)
  also have "\<dots> = set (dict_keys fD) \<inter> set (dict_keys rd)"
    by (force simp: dict_contains_def dict_keys_def)
  finally show ?thesis .
qed

subsection \<open>Extensions, limits and filters\<close>










lemma reload_empty_filter:
  "reload e h pfx ccUrl birdUrl dirPath useCache molLimit (Some []) =
   reload e h pfx ccUrl birdUrl dirPath useCache molLimit None"
  by (simp add: reload_def apply_filter_def dict_truthy_def Let_def)

section \<open>Properties of lookup and validation\<close>

text \<open>
  C9. For every store (also an absent one) and every identifier, \<open>getMol\<close> returns
  normally: the record stored under the identifier when there is one, and \<^verbatim>\<open>None\<close>
  otherwise. No exception reaches the caller.
\<close>

theorem getMol_total:
  "getMol ccMolD ccId =
     Inr (case ccMolD of None \<Rightarrow> None | Some d \<Rightarrow> map_of d ccId)"
  by (simp add: getMol_def ccMolD_subscript_def dict_getitem_def
      split: option.splits)

text \<open>
  C2, as stated, fails: \<^verbatim>\<open>testCache()\<close> uses the default \<^verbatim>\<open>minCount=29000\<close>, so for a
  store that is present and empty the result is falsy.
\<close>

theorem testCache_default_empty_counterexample:
  "\<not> pyval_truthy (testCache_default (Some []))"
  by (simp add: testCache_default_def)

text \<open>
  C2, amended. \<open>testCache\<close> returns a truthy value exactly when the store is present
  and, for a positive \<open>minCount\<close>, has at least \<open>minCount\<close> entries; with \<open>minCount\<close>
  zero or \<^verbatim>\<open>None\<close> only the presence of the store is checked. A call without
  arguments is the call with \<open>minCount = 29000\<close>: it is truthy exactly for a store of at
  least 29000 entries.
\<close>

theorem testCache_truthy:
  "(0 \<le> n \<longrightarrow>
      pyval_truthy (testCache ccMolD (PInt n)) =
        (case ccMolD of None \<Rightarrow> False | Some d \<Rightarrow> n \<le> int (length d))) \<and>
   pyval_truthy (testCache ccMolD PNone) = (ccMolD \<noteq> None) \<and>
   pyval_truthy (testCache_default ccMolD) =
     (case ccMolD of None \<Rightarrow> False | Some d \<Rightarrow> 29000 \<le> int (length d))"
  by (cases ccMolD) (auto simp: testCache_default_def)

theorem testCache_truthy_witness:
  "(0::int) \<le> 2 \<and> pyval_truthy (testCache (Some ex_cached) (PInt 2)) \<and>
   pyval_truthy (testCache (Some []) (PInt 0)) \<and>
   \<not> pyval_truthy (testCache None (PInt 0)) \<and>
   \<not> pyval_truthy (testCache_default (Some ex_cached))"
  using testCache_truthy [of 2 "Some ex_cached"] testCache_truthy [of 0 "Some []"]
    testCache_truthy [of 0 None]
  by (simp add: ex_cached_def)

section \<open>The format of the cache file\<close>



section \<open>Reloading from the cache file\<close>

text \<open>
  C5. On a cache hit (\<open>useCache\<close> holds and the cache file exists) whose import returns
  the dictionary \<open>rd\<close>, with a limit \<open>N > 0\<close>: the reload returns a store of at most
  \<open>N\<close> entries whose keys are the first \<open>N\<close> keys of \<open>rd\<close> in ascending order, each
  with the record \<open>rd\<close> holds for it. The order of \<open>rd\<close> itself plays no part: in the
  sample the cached keys are XYZ, GTP, ATP and the reload with limit 2 keeps ATP and GTP.
\<close>

theorem reload_hit_limit:
  assumes "useCache" and "mU_exists e h (ccDataFilePath_of dirPath pfx)"
    and imp: "mU_doImport_dict e h (ccDataFilePath_of dirPath pfx)
            (ccDataFormat_of (ccDataFilePath_of dirPath pfx)) = Inr (Some rd)"
    and dist: "distinct (dict_keys rd)" and pos: "0 < N"
  shows "\<exists>d. fst (reload e h pfx ccUrl birdUrl dirPath useCache (PInt N) filterIdD) = Inr d \<and>
           int (length d) \<le> N \<and>
           dict_keys d = take (nat N) (sort (dict_keys rd)) \<and>
           (\<forall>k \<in> set (dict_keys d). map_of d k = map_of rd k)"
proof -
  let ?ks = "take (nat N) (sort (dict_keys rd))"
  have sub: "set ?ks \<subseteq> set (dict_keys rd)"
    using set_take_subset [of "nat N" "sort (dict_keys rd)"] by simp
  have dks: "distinct ?ks" using dist by simp
  from items_for_ok [OF sub] obtain items where
    it: "items_for rd ?ks = Inr items" and ks: "map fst items = ?ks"
    and vals: "\<forall>(k, v) \<in> set items. map_of rd k = Some v" by blast
  from dks ks have "distinct (dict_keys ([] @ items))" by (simp add: dict_keys_def)
  then have same: "dict_from_items [] items = items"
    using dict_from_items_distinct [of "[]" items] by simp
  from assms(1,2) have c: "(useCache \<and> mU_exists e h (ccDataFilePath_of dirPath pfx)) = True"
    by simp
  have sl: "slice_to (sort (dict_keys rd)) N = ?ks" using pos by (simp add: slice_to_def)
  have res: "fst (reload e h pfx ccUrl birdUrl dirPath useCache (PInt N) filterIdD) = Inr items"
    unfolding reload_def Let_def c using pos imp it same
    by (simp add: truncate_sorted_def sl len_logged_def)
  have len: "int (length items) \<le> N"
  proof -
    have "length items = length ?ks" using ks by (metis length_map)
    then show ?thesis using pos by simp
  qed
  have agree: "\<forall>k \<in> set (dict_keys items). map_of items k = map_of rd k"
  proof
    fix k assume "k \<in> set (dict_keys items)"
    then obtain v where kv: "(k, v) \<in> set items" by (auto simp: dict_keys_def)
    from dks ks have "distinct (map fst items)" by simp
    with kv have "map_of items k = Some v" by simp
    moreover from vals kv have "map_of rd k = Some v" by auto
    ultimately show "map_of items k = map_of rd k" by simp
  qed
  from ks have "dict_keys items = ?ks" by (simp add: dict_keys_def)
  with res len agree show ?thesis by blast
qed

theorem reload_hit_limit_witness:
  "mU_exists (ex_env (Inr (Some [])) (Inr (Some [])) (Some (Inr (Some ex_cached)))) []
     (ccDataFilePath_of ''chem_comp'' ''cc'') \<and>
   mU_doImport_dict (ex_env (Inr (Some [])) (Inr (Some [])) (Some (Inr (Some ex_cached)))) []
     (ccDataFilePath_of ''chem_comp'' ''cc'')
     (ccDataFormat_of (ccDataFilePath_of ''chem_comp'' ''cc'')) = Inr (Some ex_cached) \<and>
   dict_keys ex_cached = [''XYZ'', ''GTP'', ''ATP''] \<and> (0::int) < 2 \<and>
   (\<exists>d. fst (reload (ex_env (Inr (Some [])) (Inr (Some [])) (Some (Inr (Some ex_cached)))) []
          ''cc'' ''http://a/components.cif'' ''http://a/prdcc-all.cif'' ''chem_comp'' True
          (PInt 2) (None :: unit dict option)) = Inr d \<and>
        int (length d) \<le> 2 \<and> dict_keys d = [''ATP'', ''GTP''] \<and>
        (\<forall>k \<in> set (dict_keys d). map_of d k = map_of ex_cached k))"
proof -
  let ?e = "ex_env (Inr (Some [])) (Inr (Some [])) (Some (Inr (Some ex_cached)))"
  have ex: "mU_exists ?e [] (ccDataFilePath_of ''chem_comp'' ''cc'')"
    by (simp add: ex_env_def)
  have imp: "mU_doImport_dict ?e [] (ccDataFilePath_of ''chem_comp'' ''cc'')
     (ccDataFormat_of (ccDataFilePath_of ''chem_comp'' ''cc'')) = Inr (Some ex_cached)"
    by (simp add: ex_env_def)
  have keys: "dict_keys ex_cached = [''XYZ'', ''GTP'', ''ATP'']"
    by (simp add: ex_cached_def dict_keys_def)
  have dist: "distinct (dict_keys ex_cached)" unfolding keys by simp
  have srt: "take (nat 2) (sort (dict_keys ex_cached)) = [''ATP'', ''GTP'']"
    unfolding keys by simp
  show ?thesis
    using reload_hit_limit [of True ?e "[]" "''chem_comp''" "''cc''" ex_cached 2
        "''http://a/components.cif''" "''http://a/prdcc-all.cif''" "None :: unit dict option",
        OF _ ex imp dist]
      ex imp keys
    unfolding srt by simp
qed

section \<open>The filter of a fresh build\<close>

text \<open>
  C4, as stated, fails for the empty filter: \<^verbatim>\<open>if filterIdD\<close> is false for an empty
  dictionary, so the build is not filtered at all and keeps the key ATP, which is not in
  the intersection with the empty set.
\<close>

theorem filter_empty_counterexample:
  "fst (reload (ex_env (Inr (Some [ex_atp])) (Inr (Some [])) None) []
          ''cc'' ''http://a/components.cif'' ''http://a/prdcc-all.cif'' ''chem_comp'' False
          (PInt 0) (Some ([] :: unit dict))) = Inr [(''ATP'', ex_atp)] \<and>
   fst (reload (ex_env (Inr (Some [ex_atp])) (Inr (Some [])) None) []
          ''cc'' ''http://a/components.cif'' ''http://a/prdcc-all.cif'' ''chem_comp'' False
          (PInt 0) (None :: unit dict option)) = Inr [(''ATP'', ex_atp)] \<and>
   set (dict_keys [(''ATP'', ex_atp)]) \<noteq>
     set (dict_keys ([] :: unit dict)) \<inter> set (dict_keys [(''ATP'', ex_atp)])"
  by (simp add: reload_def ccDataFilePath_of_def ccDataFormat_of_def fetchUrl_def
      readComponentDefinitions_def read_try_body_def import_mmcif_def path_truthy_def
      key_records_def limit_records_def apply_filter_def dict_truthy_def ccId_of_def
      PdbxChemCompIt_def os_path_join_def dict_keys_def ex_env_def ex_atp_def Let_def)

text \<open>
  C4, amended. For every build without cache hit and every non-empty filter, the
  build returns a store whose key set is the intersection of the filter's keys with the
  key set of the same build without filter. An empty filter is treated as no filter: the
  build with it is the build without filter, in its result and in its events.
\<close>

theorem reload_filter_law:
  "(\<not> (useCache \<and> mU_exists e h (ccDataFilePath_of dirPath pfx)) \<and> fD \<noteq> [] \<longrightarrow>
      (\<exists>d d0.
         fst (reload e h pfx ccUrl birdUrl dirPath useCache molLimit (Some fD)) = Inr d \<and>
         fst (reload e h pfx ccUrl birdUrl dirPath useCache molLimit
                (None :: 'f dict option)) = Inr d0 \<and>
         set (dict_keys d) = set (dict_keys (fD :: 'f dict)) \<inter> set (dict_keys d0))) \<and>
   reload e h pfx ccUrl birdUrl dirPath useCache molLimit (Some ([] :: 'f dict)) =
     reload e h pfx ccUrl birdUrl dirPath useCache molLimit (None :: 'f dict option)"
proof -
  let ?rd = "fst (readComponentDefinitions e
          (snd (fetchUrl e (snd (fetchUrl e h ccUrl dirPath useCache)) birdUrl dirPath useCache))
          (fst (fetchUrl e h ccUrl dirPath useCache))
          (Some (fst (fetchUrl e (snd (fetchUrl e h ccUrl dirPath useCache)) birdUrl dirPath useCache)))
          molLimit)"
  have law: "\<not> (useCache \<and> mU_exists e h (ccDataFilePath_of dirPath pfx)) \<and> fD \<noteq> [] \<longrightarrow>
      (\<exists>d d0.
         fst (reload e h pfx ccUrl birdUrl dirPath useCache molLimit (Some fD)) = Inr d \<and>
         fst (reload e h pfx ccUrl birdUrl dirPath useCache molLimit
                (None :: 'f dict option)) = Inr d0 \<and>
         set (dict_keys d) = set (dict_keys fD) \<inter> set (dict_keys d0))"
  proof
    assume a: "\<not> (useCache \<and> mU_exists e h (ccDataFilePath_of dirPath pfx)) \<and> fD \<noteq> []"
    then have miss: "\<not> (useCache \<and> mU_exists e h (ccDataFilePath_of dirPath pfx))"
      and ne: "fD \<noteq> []" by simp_all
    have x: "fst (reload e h pfx ccUrl birdUrl dirPath useCache molLimit (Some fD)) =
        Inr (apply_filter ?rd (Some fD))"
      using reload_miss [OF miss] .
    have y: "fst (reload e h pfx ccUrl birdUrl dirPath useCache molLimit
        (None :: 'f dict option)) = Inr (apply_filter ?rd (None :: 'f dict option))"
      using reload_miss [OF miss] .
    have z: "apply_filter ?rd (None :: 'f dict option) = ?rd" by (simp add: apply_filter_def)
    from x y z apply_filter_keys [OF ne, of ?rd]
    show "\<exists>d d0.
         fst (reload e h pfx ccUrl birdUrl dirPath useCache molLimit (Some fD)) = Inr d \<and>
         fst (reload e h pfx ccUrl birdUrl dirPath useCache molLimit
                (None :: 'f dict option)) = Inr d0 \<and>
         set (dict_keys d) = set (dict_keys fD) \<inter> set (dict_keys d0)"
      by simp
  qed
  have empty: "reload e h pfx ccUrl birdUrl dirPath useCache molLimit (Some ([] :: 'f dict)) =
     reload e h pfx ccUrl birdUrl dirPath useCache molLimit (None :: 'f dict option)"
    by (rule reload_empty_filter)
  from law empty show ?thesis by blast
qed

theorem reload_filter_law_witness:
  "\<not> (False \<and> mU_exists (ex_env (Inr (Some [ex_atp, ex_gtp, ex_noid])) (Inr (Some [ex_prd])) None) []
          (ccDataFilePath_of ''chem_comp'' ''cc'')) \<and>
   [(''ATP'', ()), (''QQQ'', ())] \<noteq> [] \<and>
   (\<exists>d d0.
     fst (reload (ex_env (Inr (Some [ex_atp, ex_gtp, ex_noid])) (Inr (Some [ex_prd])) None) []
          ''cc'' ''http://a/components.cif'' ''http://a/prdcc-all.cif'' ''chem_comp'' False
          (PInt 0) (Some [(''ATP'', ()), (''QQQ'', ())])) = Inr d \<and>
     fst (reload (ex_env (Inr (Some [ex_atp, ex_gtp, ex_noid])) (Inr (Some [ex_prd])) None) []
          ''cc'' ''http://a/components.cif'' ''http://a/prdcc-all.cif'' ''chem_comp'' False
          (PInt 0) (None :: unit dict option)) = Inr d0 \<and>
     set (dict_keys d) = {''ATP'', ''QQQ''} \<inter> set (dict_keys d0)) \<and>
   reload (ex_env (Inr (Some [ex_atp, ex_gtp, ex_noid])) (Inr (Some [ex_prd])) None) []
          ''cc'' ''http://a/components.cif'' ''http://a/prdcc-all.cif'' ''chem_comp'' False
          (PInt 0) (Some ([] :: unit dict)) =
   reload (ex_env (Inr (Some [ex_atp, ex_gtp, ex_noid])) (Inr (Some [ex_prd])) None) []
          ''cc'' ''http://a/components.cif'' ''http://a/prdcc-all.cif'' ''chem_comp'' False
          (PInt 0) (None :: unit dict option)"
  using reload_filter_law [of False "ex_env (Inr (Some [ex_atp, ex_gtp, ex_noid])) (Inr (Some [ex_prd])) None"
      "[]" "''chem_comp''" "''cc''" "[(''ATP'', ()), (''QQQ'', ())]"
      "''http://a/components.cif''" "''http://a/prdcc-all.cif''" "PInt 0"]
  by (simp add: dict_keys_def)

section \<open>The reader of a fresh build\<close>

text \<open>
  In the theorems of this section both imports return lists, \<open>l1\<close> for the primary
  archive and \<open>l2\<close> for the supplementary one, and the supplementary path is not empty,
  as in the call \<^verbatim>\<open>__reload\<close> makes.

  C6. With a limit \<open>N > 0\<close> the reader keys exactly the first \<open>N\<close> records of \<open>l1 @ l2\<close>:
  the store has at most \<open>N\<close> entries, its keys are the identifiers of those records, and
  every record in it is one of them.
\<close>

theorem fresh_build_limit:
  assumes cc: "mU_doImport_mmcif e h ccd = Inr (Some l1)"
    and bp: "bp \<noteq> []"
    and bird: "mU_doImport_mmcif e (h @ [EvImport ccd Mmcif]) bp = Inr (Some l2)"
    and pos: "0 < N"
  shows "fst (readComponentDefinitions e h ccd (Some bp) (PInt N)) =
           key_records [] (take (nat N) (l1 @ l2)) \<and>
         int (length (fst (readComponentDefinitions e h ccd (Some bp) (PInt N)))) \<le> N \<and>
         set (dict_keys (fst (readComponentDefinitions e h ccd (Some bp) (PInt N)))) =
           ccId_of ` set (take (nat N) (l1 @ l2)) \<and>
         snd ` set (fst (readComponentDefinitions e h ccd (Some bp) (PInt N))) \<subseteq>
           set (take (nat N) (l1 @ l2))"
proof -
  let ?xs = "take (nat N) (l1 @ l2)"
  have lim: "limit_records (l1 @ l2) (PInt N) = ?xs"
    using pos by (simp add: limit_records_def slice_to_def)
  have eq: "fst (readComponentDefinitions e h ccd (Some bp) (PInt N)) = key_records [] ?xs"
    using read_both [OF cc bp bird, of "PInt N"] lim by simp
  have "length (key_records [] ?xs) \<le> length ?xs" by (rule length_key_records)
  also have "\<dots> \<le> nat N" by simp
  finally have len: "int (length (key_records [] ?xs)) \<le> N" using pos by simp
  show ?thesis
    unfolding eq using len keys_key_records [of ?xs] values_key_records [of ?xs] by simp
qed

theorem fresh_build_limit_witness:
  "mU_doImport_mmcif (ex_env (Inr (Some [ex_noid, ex_gtp])) (Inr (Some [ex_prd])) None) []
     ''chem_comp/components.cif'' = Inr (Some [ex_noid, ex_gtp]) \<and>
   ''chem_comp/prdcc-all.cif'' \<noteq> [] \<and>
   mU_doImport_mmcif (ex_env (Inr (Some [ex_noid, ex_gtp])) (Inr (Some [ex_prd])) None)
     [EvImport ''chem_comp/components.cif'' Mmcif] ''chem_comp/prdcc-all.cif'' =
     Inr (Some [ex_prd]) \<and>
   (0::int) < 2 \<and>
   fst (readComponentDefinitions (ex_env (Inr (Some [ex_noid, ex_gtp])) (Inr (Some [ex_prd])) None)
         [] ''chem_comp/components.cif'' (Some ''chem_comp/prdcc-all.cif'') (PInt 2)) =
     [(''XYZ'', ex_noid), (''GTP'', ex_gtp)]"
proof -
  let ?e = "ex_env (Inr (Some [ex_noid, ex_gtp])) (Inr (Some [ex_prd])) None"
  have cc: "mU_doImport_mmcif ?e [] ''chem_comp/components.cif'' = Inr (Some [ex_noid, ex_gtp])"
    by (simp add: ex_env_def)
  have bird: "mU_doImport_mmcif ?e ([] @ [EvImport ''chem_comp/components.cif'' Mmcif])
      ''chem_comp/prdcc-all.cif'' = Inr (Some [ex_prd])"
    by (simp add: ex_env_def)
  have bp: "''chem_comp/prdcc-all.cif'' \<noteq> []" by simp
  have k: "key_records [] (take (nat 2) ([ex_noid, ex_gtp] @ [ex_prd])) =
      [(''XYZ'', ex_noid), (''GTP'', ex_gtp)]"
    by (simp add: key_records_def ccId_of_def PdbxChemCompIt_def ex_noid_def ex_gtp_def)
  show ?thesis
    using fresh_build_limit [OF cc bp bird, of 2] cc bird k by simp
qed




text \<open>
  C8. Every record the reader processes is keyed: a record for which the iterator
  yields nothing is in the store under its container name, and a record with a first
  row is in the store under the identifier of that row. The keys of the store are exactly
  the identifiers so derived.
\<close>

theorem identifier_two_tier:
  assumes cc: "mU_doImport_mmcif e h ccd = Inr (Some l1)"
    and bp: "bp \<noteq> []"
    and bird: "mU_doImport_mmcif e (h @ [EvImport ccd Mmcif]) bp = Inr (Some l2)"
    and proc: "ccObj \<in> set (limit_records (l1 @ l2) molLimit)"
  shows "(PdbxChemCompIt ccObj = [] \<longrightarrow>
            dict_contains (fst (readComponentDefinitions e h ccd (Some bp) molLimit))
              (getName ccObj)) \<and>
         (\<forall>ccIt rest. PdbxChemCompIt ccObj = ccIt # rest \<longrightarrow>
            dict_contains (fst (readComponentDefinitions e h ccd (Some bp) molLimit))
              (getId ccIt)) \<and>
         set (dict_keys (fst (readComponentDefinitions e h ccd (Some bp) molLimit))) =
           ccId_of ` set (limit_records (l1 @ l2) molLimit)"
proof -
  let ?xs = "limit_records (l1 @ l2) molLimit"
  have eq: "fst (readComponentDefinitions e h ccd (Some bp) molLimit) = key_records [] ?xs"
    using read_both [OF cc bp bird] .
  have keys: "set (dict_keys (key_records [] ?xs)) = ccId_of ` set ?xs"
    by (rule keys_key_records)
  from proc have mem: "dict_contains (key_records [] ?xs) (ccId_of ccObj)"
    by (simp add: dict_contains_def keys)
  have none: "PdbxChemCompIt ccObj = [] \<longrightarrow> dict_contains (key_records [] ?xs) (getName ccObj)"
    using mem by (auto simp: ccId_of_def)
  have some: "\<forall>ccIt rest. PdbxChemCompIt ccObj = ccIt # rest \<longrightarrow>
      dict_contains (key_records [] ?xs) (getId ccIt)"
    using mem by (auto simp: ccId_of_def)
  show ?thesis unfolding eq using none some keys by blast
qed

theorem identifier_two_tier_witness:
  "mU_doImport_mmcif (ex_env (Inr (Some [ex_noid, ex_gtp])) (Inr (Some [ex_prd])) None) []
     ''chem_comp/components.cif'' = Inr (Some [ex_noid, ex_gtp]) \<and>
   mU_doImport_mmcif (ex_env (Inr (Some [ex_noid, ex_gtp])) (Inr (Some [ex_prd])) None)
     [EvImport ''chem_comp/components.cif'' Mmcif] ''chem_comp/prdcc-all.cif'' =
     Inr (Some [ex_prd]) \<and>
   ex_noid \<in> set (limit_records ([ex_noid, ex_gtp] @ [ex_prd]) (PInt 0)) \<and>
   ex_prd \<in> set (limit_records ([ex_noid, ex_gtp] @ [ex_prd]) (PInt 0)) \<and>
   PdbxChemCompIt ex_noid = [] \<and> getName ex_noid = ''XYZ'' \<and>
   PdbxChemCompIt ex_prd = [PdbxChemComp ''ATP''] \<and> getName ex_prd = ''PRDCC_000001'' \<and>
   dict_contains (fst (readComponentDefinitions
       (ex_env (Inr (Some [ex_noid, ex_gtp])) (Inr (Some [ex_prd])) None)
       [] ''chem_comp/components.cif'' (Some ''chem_comp/prdcc-all.cif'') (PInt 0))) ''XYZ'' \<and>
   dict_contains (fst (readComponentDefinitions
       (ex_env (Inr (Some [ex_noid, ex_gtp])) (Inr (Some [ex_prd])) None)
       [] ''chem_comp/components.cif'' (Some ''chem_comp/prdcc-all.cif'') (PInt 0))) ''ATP''"
proof -
  let ?e = "ex_env (Inr (Some [ex_noid, ex_gtp])) (Inr (Some [ex_prd])) None"
  have cc: "mU_doImport_mmcif ?e [] ''chem_comp/components.cif'' = Inr (Some [ex_noid, ex_gtp])"
    by (simp add: ex_env_def)
  have bird: "mU_doImport_mmcif ?e ([] @ [EvImport ''chem_comp/components.cif'' Mmcif])
      ''chem_comp/prdcc-all.cif'' = Inr (Some [ex_prd])"
    by (simp add: ex_env_def)
  have bp: "''chem_comp/prdcc-all.cif'' \<noteq> []" by simp
  have p1: "ex_noid \<in> set (limit_records ([ex_noid, ex_gtp] @ [ex_prd]) (PInt 0))"
    and p2: "ex_prd \<in> set (limit_records ([ex_noid, ex_gtp] @ [ex_prd]) (PInt 0))"
    by (simp_all add: limit_records_def)
  have it: "PdbxChemCompIt ex_noid = []" "getName ex_noid = ''XYZ''"
    "PdbxChemCompIt ex_prd = [PdbxChemComp ''ATP'']" "getName ex_prd = ''PRDCC_000001''"
    by (simp_all add: PdbxChemCompIt_def ex_noid_def ex_prd_def)
  show ?thesis
    using identifier_two_tier [OF cc bp bird p1] identifier_two_tier [OF cc bp bird p2]
      cc bird p1 p2 it
    by simp
qed

section \<open>The limit 0\<close>

text \<open>
  C10. A limit of 0 is no limit. On a cache hit whose import returns the dictionary
  \<open>rd\<close> the reload returns \<open>rd\<close> as it is; the reader of a fresh build keys every
  record of \<open>l1 @ l2\<close>; and 0 is the limit the constructor passes on when the keyword
  \<^verbatim>\<open>molLimit\<close> is not given.
\<close>

theorem molLimit_zero_no_limit:
  "(useCache \<and> mU_exists e h (ccDataFilePath_of dirPath pfx) \<and>
      mU_doImport_dict e h (ccDataFilePath_of dirPath pfx)
        (ccDataFormat_of (ccDataFilePath_of dirPath pfx)) = Inr (Some rd) \<longrightarrow>
      fst (reload e h pfx ccUrl birdUrl dirPath useCache (PInt 0) filterIdD) = Inr rd) \<and>
   (mU_doImport_mmcif e h ccd = Inr (Some l1) \<and> bp \<noteq> [] \<and>
      mU_doImport_mmcif e (h @ [EvImport ccd Mmcif]) bp = Inr (Some l2) \<longrightarrow>
      fst (readComponentDefinitions e h ccd (Some bp) (PInt 0)) = key_records [] (l1 @ l2) \<and>
      set (dict_keys (fst (readComponentDefinitions e h ccd (Some bp) (PInt 0)))) =
        ccId_of ` set (l1 @ l2)) \<and>
   (kw_molLimit kw = None \<longrightarrow>
      init e h kw =
        reload e h (kwargs_get (kw_ccFileNamePrefix kw) ''cc'')
          (kwargs_get (kw_ccUrlTarget kw)
             ''http://ftp.wwpdb.org/pub/pdb/data/monomers/components.cif.gz'')
          (kwargs_get (kw_birdUrlTarget kw)
             ''http://ftp.wwpdb.org/pub/pdb/data/bird/prd/prdcc-all.cif.gz'')
          (os_path_join (kwargs_get (kw_cachePath kw) ''.'') ''chem_comp'')
          (kwargs_get (kw_useCache kw) True) (PInt 0) (kw_filterIdD kw))"
proof -
  have hit: "useCache \<and> mU_exists e h (ccDataFilePath_of dirPath pfx) \<and>
      mU_doImport_dict e h (ccDataFilePath_of dirPath pfx)
        (ccDataFormat_of (ccDataFilePath_of dirPath pfx)) = Inr (Some rd) \<longrightarrow>
      fst (reload e h pfx ccUrl birdUrl dirPath useCache (PInt 0) filterIdD) = Inr rd"
    by (simp add: reload_def Let_def truncate_sorted_def len_logged_def)
  have fresh: "mU_doImport_mmcif e h ccd = Inr (Some l1) \<and> bp \<noteq> [] \<and>
      mU_doImport_mmcif e (h @ [EvImport ccd Mmcif]) bp = Inr (Some l2) \<longrightarrow>
      fst (readComponentDefinitions e h ccd (Some bp) (PInt 0)) = key_records [] (l1 @ l2) \<and>
      set (dict_keys (fst (readComponentDefinitions e h ccd (Some bp) (PInt 0)))) =
        ccId_of ` set (l1 @ l2)"
  proof
    assume a: "mU_doImport_mmcif e h ccd = Inr (Some l1) \<and> bp \<noteq> [] \<and>
      mU_doImport_mmcif e (h @ [EvImport ccd Mmcif]) bp = Inr (Some l2)"
    have lim: "limit_records (l1 @ l2) (PInt 0) = l1 @ l2" by (simp add: limit_records_def)
    from a have eq: "fst (readComponentDefinitions e h ccd (Some bp) (PInt 0)) =
        key_records [] (l1 @ l2)"
      using read_both [of e h ccd l1 bp l2 "PInt 0"] lim by simp
    show "fst (readComponentDefinitions e h ccd (Some bp) (PInt 0)) = key_records [] (l1 @ l2) \<and>
      set (dict_keys (fst (readComponentDefinitions e h ccd (Some bp) (PInt 0)))) =
        ccId_of ` set (l1 @ l2)"
      unfolding eq using keys_key_records [of "l1 @ l2"] by simp
  qed
  have dflt: "kw_molLimit kw = None \<longrightarrow>
      init e h kw =
        reload e h (kwargs_get (kw_ccFileNamePrefix kw) ''cc'')
          (kwargs_get (kw_ccUrlTarget kw)
             ''http://ftp.wwpdb.org/pub/pdb/data/monomers/components.cif.gz'')
          (kwargs_get (kw_birdUrlTarget kw)
             ''http://ftp.wwpdb.org/pub/pdb/data/bird/prd/prdcc-all.cif.gz'')
          (os_path_join (kwargs_get (kw_cachePath kw) ''.'') ''chem_comp'')
          (kwargs_get (kw_useCache kw) True) (PInt 0) (kw_filterIdD kw)"
    by (simp add: init_def Let_def kwargs_get_def)
  from hit fresh dflt show ?thesis by blast
qed

theorem molLimit_zero_no_limit_witness:
  "mU_exists (ex_env (Inr (Some [ex_atp, ex_gtp])) (Inr (Some [ex_prd]))
       (Some (Inr (Some ex_cached)))) [] (ccDataFilePath_of ''chem_comp'' ''cc'') \<and>
   fst (reload (ex_env (Inr (Some [ex_atp, ex_gtp])) (Inr (Some [ex_prd]))
          (Some (Inr (Some ex_cached)))) []
          ''cc'' ''http://a/components.cif'' ''http://a/prdcc-all.cif'' ''chem_comp'' True
          (PInt 0) (None :: unit dict option)) = Inr ex_cached \<and>
   length ex_cached = 3 \<and>
   fst (readComponentDefinitions
          (ex_env (Inr (Some [ex_atp, ex_gtp])) (Inr (Some [ex_prd]))
             (Some (Inr (Some ex_cached))))
          [] ''chem_comp/components.cif'' (Some ''chem_comp/prdcc-all.cif'') (PInt 0)) =
     [(''ATP'', ex_prd), (''GTP'', ex_gtp)] \<and>
   kw_molLimit \<lparr>kw_ccUrlTarget = None, kw_birdUrlTarget = None, kw_ccFileNamePrefix = None,
       kw_cachePath = None, kw_useCache = None, kw_molLimit = None,
       kw_filterIdD = (None :: unit dict option)\<rparr> = None \<and>
   fst (init (ex_env (Inr (Some [ex_atp, ex_gtp])) (Inr (Some [ex_prd]))
          (Some (Inr (Some ex_cached)))) []
          \<lparr>kw_ccUrlTarget = None, kw_birdUrlTarget = None, kw_ccFileNamePrefix = None,
            kw_cachePath = None, kw_useCache = None, kw_molLimit = None,
            kw_filterIdD = (None :: unit dict option)\<rparr>) = Inr ex_cached"
proof -
  let ?e = "ex_env (Inr (Some [ex_atp, ex_gtp])) (Inr (Some [ex_prd]))
       (Some (Inr (Some ex_cached)))"
  let ?kw = "\<lparr>kw_ccUrlTarget = None, kw_birdUrlTarget = None, kw_ccFileNamePrefix = None,
       kw_cachePath = None, kw_useCache = None, kw_molLimit = None,
       kw_filterIdD = (None :: unit dict option)\<rparr>"
  have ex: "\<And>p. mU_exists ?e [] p" by (simp add: ex_env_def)
  have imp: "\<And>p f. mU_doImport_dict ?e [] p f = Inr (Some ex_cached)"
    by (simp add: ex_env_def)
  have cc: "mU_doImport_mmcif ?e [] ''chem_comp/components.cif'' = Inr (Some [ex_atp, ex_gtp])"
    by (simp add: ex_env_def)
  have bird: "mU_doImport_mmcif ?e ([] @ [EvImport ''chem_comp/components.cif'' Mmcif])
      ''chem_comp/prdcc-all.cif'' = Inr (Some [ex_prd])"
    by (simp add: ex_env_def)
  have k: "key_records [] ([ex_atp, ex_gtp] @ [ex_prd]) = [(''ATP'', ex_prd), (''GTP'', ex_gtp)]"
    by (simp add: key_records_def ccId_of_def PdbxChemCompIt_def ex_atp_def ex_gtp_def
        ex_prd_def)
  have len: "length ex_cached = 3" by (simp add: ex_cached_def)
  have a: "fst (reload ?e [] ''cc'' ''http://a/components.cif'' ''http://a/prdcc-all.cif''
      ''chem_comp'' True (PInt 0) (None :: unit dict option)) = Inr ex_cached"
    using molLimit_zero_no_limit [of True ?e "[]" "''chem_comp''" "''cc''" ex_cached
        "''http://a/components.cif''" "''http://a/prdcc-all.cif''" "None :: unit dict option",
        THEN conjunct1]
      ex imp by simp
  have b: "fst (readComponentDefinitions ?e [] ''chem_comp/components.cif''
      (Some ''chem_comp/prdcc-all.cif'') (PInt 0)) = [(''ATP'', ex_prd), (''GTP'', ex_gtp)]"
    using molLimit_zero_no_limit [of False ?e "[]" "''chem_comp''" "''cc''" ex_cached
        "''http://a/components.cif''" "''http://a/prdcc-all.cif''" "None :: unit dict option"
        "''chem_comp/components.cif''" "[ex_atp, ex_gtp]" "''chem_comp/prdcc-all.cif''"
        "[ex_prd]", THEN conjunct2, THEN conjunct1]
      cc bird k by simp
  have c: "fst (init ?e [] ?kw) = Inr ex_cached"
    using molLimit_zero_no_limit [of True ?e "[]" "os_path_join ''.'' ''chem_comp''" "''cc''"
        ex_cached
        "''http://ftp.wwpdb.org/pub/pdb/data/monomers/components.cif.gz''"
        "''http://ftp.wwpdb.org/pub/pdb/data/bird/prd/prdcc-all.cif.gz''"
        "None :: unit dict option" _ _ _ _ ?kw, THEN conjunct1]
      molLimit_zero_no_limit [of True ?e "[]" "os_path_join ''.'' ''chem_comp''" "''cc''"
        ex_cached
        "''http://ftp.wwpdb.org/pub/pdb/data/monomers/components.cif.gz''"
        "''http://ftp.wwpdb.org/pub/pdb/data/bird/prd/prdcc-all.cif.gz''"
        "None :: unit dict option" _ _ _ _ ?kw, THEN conjunct2, THEN conjunct2]
      ex imp by (simp add: kwargs_get_def)
  from ex a len b c show ?thesis by simp
qed

section \<open>Failures while reading\<close>



end
